theory Spec2Isabelle
  imports Main "HOL-Library.AList"
begin

section \<open>Data model of the reader controllers\<close>

text \<open>
  The controllers of \<^verbatim>\<open>core/controllers/reader.py\<close> receive decoded JSON and hand
  most of their work to domain services. JSON values are a datatype (numbers are
  integers here: a block number is a count), a Python dict decoded from a JSON object
  is an association list with distinct keys, read with \<open>map_of\<close>.
\<close>

datatype json =
    JNull
  | JBool bool
  | JInt int
  | JStr string
  | JList "json list"
  | JDict "(string \<times> json) list"

type_synonym dict = "(string \<times> json) list"

text \<open>
  Exceptions are values. \<open>ServiceError\<close> is an exception that a domain service raised
  and the handler did not catch; \<open>AttributeError a\<close> is Python's failure to read or
  call the attribute \<open>a\<close> of an object that has none (\<open>None.widget\<close>,
  \<open>'abc'.append\<close>).
\<close>

datatype error =
    PageNotFoundException
  | InvalidInputException string
  | KeyError string
  | TypeError
  | AttributeError string
  | IndexError
  | ServiceError string

text \<open>\<open>exp_domain.Content(type, value)\<close>.\<close>

datatype Content = Content string string

text \<open>The widget instance of a state: \<open>state.widget\<close>.\<close>

record widget_instance =
  widget_id :: string
  customization_args :: dict
  sticky :: bool

record state =
  content :: "Content list"
  widget :: widget_instance

record exploration =
  id_exp :: string
  title :: string
  default_skin :: string
  init_state_name :: string
  states :: "(string \<times> state) list"

text \<open>
  A classified rule, as the handler reads it: \<open>rule.dest\<close>, the result of
  \<open>rule.get_feedback_string()\<close> and of \<open>str(rule)\<close>.
\<close>

record rule =
  dest :: string
  get_feedback_string :: string
  rule_str :: string

text \<open>A widget class of the registry, with the three renderers the handlers call.\<close>

record widget_class =
  get_raw_code :: "dict \<Rightarrow> dict \<Rightarrow> string"
  get_stats_log_html :: "dict \<Rightarrow> dict \<Rightarrow> json \<Rightarrow> string"
  get_reader_response_html :: "dict \<Rightarrow> dict \<Rightarrow> json \<Rightarrow> string \<times> string"

text \<open>
  The collaborators that are imported by \<^verbatim>\<open>reader.py\<close> and live outside it (\<open>feconf\<close>,
  \<open>exp_services\<close>, \<open>rights_manager\<close>, \<open>skins_services\<close>, \<open>widget_registry\<close>, the base
  handler's \<open>unescape_state_name\<close>) are parameters of the model. A service that looks
  something up returns \<open>Inl msg\<close> when it raises.
\<close>

record env =
  END_DEST :: string
  INTERACTIVE_PREFIX :: string
  unescape_state_name :: "string \<Rightarrow> string"
  get_exploration_by_id :: "string \<Rightarrow> string + exploration"
  get_public_explorations :: "exploration list"
  get_init_params :: "string \<Rightarrow> dict"
  update_with_state_params :: "string \<Rightarrow> string \<Rightarrow> dict \<Rightarrow> dict"
  export_content_to_html :: "string \<Rightarrow> Content list \<Rightarrow> dict \<Rightarrow> string"
  classify :: "string \<Rightarrow> string \<Rightarrow> json \<Rightarrow> json \<Rightarrow> dict \<Rightarrow> string + rule"
  get_widget_by_id :: "string \<Rightarrow> string \<Rightarrow> string + widget_class"
  can_view :: "string option \<Rightarrow> string \<Rightarrow> bool"
  is_exploration_public :: "string \<Rightarrow> bool"
  get_skin_html :: "string \<Rightarrow> string"

text \<open>
  What the handlers write to the outside: the events of
  \<open>stats_services.EventHandler\<close> and the two demo operations of \<open>exp_services\<close>.
  A handler returns the events it recorded, oldest first, with its outcome: an
  exception leaves the events recorded before it in place.
\<close>

datatype event =
    StateHit string string bool
  | AnswerSubmitted string string json string string
  | DeleteDemo string
  | LoadDemo string

section \<open>Python primitives used by the handlers\<close>

definition service :: "string + 'a \<Rightarrow> error + 'a" where
  "service r = (case r of Inl msg \<Rightarrow> Inl (ServiceError msg) | Inr x \<Rightarrow> Inr x)"

text \<open>\<open>d.get(k)\<close>, \<open>d.get(k, default)\<close> and \<open>d[k]\<close>.\<close>

definition dict_get :: "(string \<times> 'a) list \<Rightarrow> string \<Rightarrow> 'a \<Rightarrow> 'a" where
  "dict_get d k dflt = (case map_of d k of None \<Rightarrow> dflt | Some v \<Rightarrow> v)"

definition dict_index :: "(string \<times> 'a) list \<Rightarrow> string \<Rightarrow> error + 'a" where
  "dict_index d k = (case map_of d k of None \<Rightarrow> Inl (KeyError k) | Some v \<Rightarrow> Inr v)"

text \<open>\<open>x + 1\<close> on a decoded JSON value: a bool is an int in Python.\<close>

fun py_add_one :: "json \<Rightarrow> error + int" where
  "py_add_one (JInt n) = Inr (n + 1)"
| "py_add_one (JBool b) = Inr ((if b then 1 else 0) + 1)"
| "py_add_one _ = Inl TypeError"

text \<open>\<open>x['answer'] = answer\<close>: only a dict accepts a string key.\<close>

fun py_set_answer :: "json \<Rightarrow> json \<Rightarrow> error + dict" where
  "py_set_answer (JDict ps) answer = Inr (AList.update ''answer'' answer ps)"
| "py_set_answer _ answer = Inl TypeError"

fun is_prefix :: "string \<Rightarrow> string \<Rightarrow> bool" where
  "is_prefix [] ys = True"
| "is_prefix (x # xs) [] = False"
| "is_prefix (x # xs) (y # ys) = (x = y \<and> is_prefix xs ys)"

fun substring :: "string \<Rightarrow> string \<Rightarrow> bool" where
  "substring xs [] = (xs = [])"
| "substring xs (y # ys) = (is_prefix xs (y # ys) \<or> substring xs ys)"

text \<open>
  \<open>name not in x\<close> for a string \<open>name\<close>: membership by equality in a list, the
  substring test in a string, key membership in a dict, \<open>TypeError\<close> for a value
  that is not iterable.
\<close>

fun py_not_in :: "string \<Rightarrow> json \<Rightarrow> error + bool" where
  "py_not_in name (JList xs) = Inr (JStr name \<notin> set xs)"
| "py_not_in name (JStr s) = Inr (\<not> substring name s)"
| "py_not_in name (JDict kvs) = Inr (name \<notin> set (map fst kvs))"
| "py_not_in name _ = Inl TypeError"

text \<open>\<open>x.append(name)\<close>: only a list has the method.\<close>

fun py_append :: "json \<Rightarrow> string \<Rightarrow> error + json list" where
  "py_append (JList xs) name = Inr (xs @ [JStr name])"
| "py_append _ name = Inl (AttributeError ''append'')"

text \<open>\<open>s.split(c)\<close> for a one-character separator, and \<open>sep.join(xs)\<close>.\<close>

fun split :: "char \<Rightarrow> string \<Rightarrow> string list" where
  "split c [] = [[]]"
| "split c (x # xs) =
     (if x = c then [] # split c xs
      else (case split c xs of [] \<Rightarrow> [[x]] | w # ws \<Rightarrow> (x # w) # ws))"

fun join :: "string \<Rightarrow> string list \<Rightarrow> string" where
  "join sep [] = []"
| "join sep [x] = x"
| "join sep (x # y # ys) = x @ sep @ join sep (y # ys)"

text \<open>An attribute read on a value that may be \<open>None\<close>.\<close>

definition attr :: "string \<Rightarrow> 'a option \<Rightarrow> error + 'a" where
  "attr a x = (case x of None \<Rightarrow> Inl (AttributeError a) | Some v \<Rightarrow> Inr v)"

section \<open>ExplorationPage and ExplorationHandler\<close>

record page_values =
  pv_content :: string
  pv_iframed :: bool
  pv_is_public :: bool

text \<open>
  \<open>ExplorationPage.get\<close> (\<^verbatim>\<open>GET /learn/<id>\<close>). \<open>user_id\<close> is \<open>self.user_id\<close>
  (\<open>None\<close> for a logged-out reader), \<open>iframed_arg\<close> is \<open>self.request.get('iframed')\<close>.
  Any exception of the lookup becomes \<open>PageNotFoundException\<close>.
\<close>

definition ExplorationPage_get ::
    "env \<Rightarrow> string option \<Rightarrow> string \<Rightarrow> string \<Rightarrow> error + page_values" where
  "ExplorationPage_get E user_id exploration_id iframed_arg =
     (case get_exploration_by_id E exploration_id of
        Inl e \<Rightarrow> Inl PageNotFoundException
      | Inr exploration \<Rightarrow>
          if \<not> can_view E user_id exploration_id then Inl PageNotFoundException
          else Inr \<lparr>pv_content = get_skin_html E (default_skin exploration),
                    pv_iframed = (iframed_arg = ''true''),
                    pv_is_public = is_exploration_public E exploration_id\<rparr>)"

record init_values =
  iv_block_number :: int
  iv_interactive_html :: string
  iv_oppia_html :: string
  iv_params :: dict
  iv_state_history :: "string list"
  iv_state_name :: string
  iv_title :: string

text \<open>
  \<open>ExplorationHandler.get\<close> (\<^verbatim>\<open>GET /learnhandler/init/<id>\<close>). \<open>exploration.init_state\<close>
  is the state stored under \<open>init_state_name\<close>. The state hit is recorded after the
  JSON is rendered. The handler has \<open>self.user_id\<close> at hand as every handler does;
  its body never reads it.
\<close>

definition ExplorationHandler_get ::
    "env \<Rightarrow> string option \<Rightarrow> string \<Rightarrow> event list \<times> (error + init_values)" where
  "ExplorationHandler_get E user_id exploration_id =
     (case get_exploration_by_id E exploration_id of
        Inl e \<Rightarrow> ([], Inl PageNotFoundException)
      | Inr exploration \<Rightarrow>
          let init_params = get_init_params E exploration_id;
              reader_params = update_with_state_params E exploration_id
                                (init_state_name exploration) init_params
          in
          (case dict_index (states exploration) (init_state_name exploration) of
             Inl e \<Rightarrow> ([], Inl e)
           | Inr init_state \<Rightarrow>
               let init_html = export_content_to_html E exploration_id
                                 (content init_state) reader_params
               in
               (case service (get_widget_by_id E (INTERACTIVE_PREFIX E)
                                (widget_id (widget init_state))) of
                  Inl e \<Rightarrow> ([], Inl e)
                | Inr interactive_widget \<Rightarrow>
                    let interactive_html = get_raw_code interactive_widget
                          (customization_args (widget init_state)) reader_params
                    in
                    ([StateHit exploration_id (init_state_name exploration) True],
                     Inr \<lparr>iv_block_number = 0,
                          iv_interactive_html = interactive_html,
                          iv_oppia_html = init_html,
                          iv_params = reader_params,
                          iv_state_history = [init_state_name exploration],
                          iv_state_name = init_state_name exploration,
                          iv_title = title exploration\<rparr>))))"

section \<open>FeedbackHandler\<close>

text \<open>
  \<open>FeedbackHandler._append_answer_to_stats_log\<close>: the event it records, or the
  exception of the registry lookup.
\<close>

definition append_answer_to_stats_log ::
    "env \<Rightarrow> state \<Rightarrow> json \<Rightarrow> string \<Rightarrow> string \<Rightarrow> dict \<Rightarrow> json \<Rightarrow> rule \<Rightarrow> error + event"
  where
  "append_answer_to_stats_log E old_state answer exploration_id old_state_name
       old_params handler rl =
     (case service (get_widget_by_id E (INTERACTIVE_PREFIX E)
                      (widget_id (widget old_state))) of
        Inl e \<Rightarrow> Inl e
      | Inr w \<Rightarrow>
          let recorded_answer = get_stats_log_html w
                (customization_args (widget old_state)) old_params answer
          in Inr (AnswerSubmitted exploration_id old_state_name handler (rule_str rl)
                    recorded_answer))"

text \<open>\<open>FeedbackHandler._get_feedback\<close>.\<close>

definition get_feedback :: "env \<Rightarrow> string \<Rightarrow> string \<Rightarrow> dict \<Rightarrow> string" where
  "get_feedback E exploration_id feedback params =
     (if feedback = [] then []
      else
        let feedback_bits = split (CHR 0x0A) feedback
        in export_content_to_html E exploration_id
             [Content ''text'' (join ''<br>'' feedback_bits)] params)"

text \<open>
  \<open>FeedbackHandler._append_content\<close>. \<open>new_state\<close> is \<open>None\<close> when the destination is
  the end sentinel; reading \<open>new_state.content\<close> or \<open>new_state.widget\<close> then raises.
  The result is \<open>(new_params, html_output, interactive_html)\<close>.
\<close>

definition append_content ::
    "env \<Rightarrow> string \<Rightarrow> bool \<Rightarrow> bool \<Rightarrow> dict \<Rightarrow> state option \<Rightarrow> string \<Rightarrow> bool \<Rightarrow> string
       \<Rightarrow> error + (dict \<times> string \<times> string)" where
  "append_content E exploration_id stick finished old_params new_state new_state_name
       state_has_changed html_output =
     (if finished then Inr ([], html_output, [])
      else
        let new_params = update_with_state_params E exploration_id new_state_name
                           old_params
        in
        (case (if state_has_changed then
                 (case attr ''content'' new_state of
                    Inl e \<Rightarrow> Inl e
                  | Inr ns \<Rightarrow>
                      let state_html = export_content_to_html E exploration_id
                                         (content ns) new_params
                      in Inr ((if html_output \<noteq> [] \<and> state_html \<noteq> []
                               then html_output @ ''<br>'' else html_output)
                              @ state_html))
               else Inr html_output) of
           Inl e \<Rightarrow> Inl e
         | Inr html_output' \<Rightarrow>
             (case (if stick then Inr []
                    else
                      (case attr ''widget'' new_state of
                         Inl e \<Rightarrow> Inl e
                       | Inr ns \<Rightarrow>
                           (case service (get_widget_by_id E (INTERACTIVE_PREFIX E)
                                            (widget_id (widget ns))) of
                              Inl e \<Rightarrow> Inl e
                            | Inr w \<Rightarrow>
                                Inr (get_raw_code w (customization_args (widget ns))
                                       new_params)))) of
                Inl e \<Rightarrow> Inl e
              | Inr interactive_html \<Rightarrow>
                  Inr (new_params, html_output', interactive_html))))"

text \<open>
  The sticky flag of \<open>FeedbackHandler.post\<close> (the conjunction assigned to \<open>sticky\<close>):
  \<open>and\<close> evaluates left to right and stops at the first false operand, so
  \<open>new_state.widget\<close> is read only when the destination is not the end sentinel.
\<close>

definition sticky_flag :: "env \<Rightarrow> string \<Rightarrow> state option \<Rightarrow> state \<Rightarrow> error + bool" where
  "sticky_flag E new_state_name new_state old_state =
     (if new_state_name \<noteq> END_DEST E then
        (case attr ''widget'' new_state of
           Inl e \<Rightarrow> Inl e
         | Inr ns \<Rightarrow>
             Inr (sticky (widget ns) \<and>
                  widget_id (widget ns) = widget_id (widget old_state)))
      else Inr False)"

text \<open>The JSON object that \<open>FeedbackHandler.post\<close> renders, one field per key.\<close>

record feedback_values =
  fv_reader_response_html :: string
  fv_reader_response_iframe :: string
  fv_interactive_html :: string
  fv_exploration_id :: string
  fv_state_name :: string
  fv_oppia_html :: string
  fv_block_number :: int
  fv_params :: dict
  fv_finished :: bool
  fv_state_history :: "json list"

text \<open>
  \<open>FeedbackHandler.post\<close> (\<^verbatim>\<open>POST /learnhandler/transition/<id>/<state>\<close>), statement
  by statement. \<open>payload\<close> is \<open>self.payload\<close>. The argument of \<open>record_state_hit\<close> is
  evaluated before the call, and \<open>state_history.append\<close> runs after it. The two
  registry lookups of the origin widget are the same call.
\<close>

definition post ::
    "env \<Rightarrow> string \<Rightarrow> string \<Rightarrow> dict \<Rightarrow> event list \<times> (error + feedback_values)" where
  "post E exploration_id escaped_state_name payload =
     (let old_state_name = unescape_state_name E escaped_state_name in
      (case service (get_exploration_by_id E exploration_id) of
        Inl e \<Rightarrow> ([], Inl e)
      | Inr exploration \<Rightarrow>
      (case dict_index (states exploration) old_state_name of
        Inl e \<Rightarrow> ([], Inl e)
      | Inr old_state \<Rightarrow>
      (let answer = dict_get payload ''answer'' JNull;
           handler = dict_get payload ''handler'' JNull in
      (case py_add_one (dict_get payload ''block_number'' JNull) of
        Inl e \<Rightarrow> ([], Inl e)
      | Inr block_number \<Rightarrow>
      (case py_set_answer (dict_get payload ''params'' (JDict [])) answer of
        Inl e \<Rightarrow> ([], Inl e)
      | Inr old_params \<Rightarrow>
      (case dict_index payload ''state_history'' of
        Inl e \<Rightarrow> ([], Inl e)
      | Inr state_history \<Rightarrow>
      (case service (classify E exploration_id old_state_name handler answer old_params) of
        Inl e \<Rightarrow> ([], Inl e)
      | Inr rl \<Rightarrow>
      (let feedback = get_feedback_string rl;
           new_state_name = dest rl in
      (case (if new_state_name = END_DEST E then Inr None
             else map_sum id Some (dict_index (states exploration) new_state_name)) of
        Inl e \<Rightarrow> ([], Inl e)
      | Inr new_state \<Rightarrow>
      (case py_not_in new_state_name state_history of
        Inl e \<Rightarrow> ([], Inl e)
      | Inr is_first_visit \<Rightarrow>
      (let hit = [StateHit exploration_id new_state_name is_first_visit] in
      (case py_append state_history new_state_name of
        Inl e \<Rightarrow> (hit, Inl e)
      | Inr state_history' \<Rightarrow>
      (case sticky_flag E new_state_name new_state old_state of
        Inl e \<Rightarrow> (hit, Inl e)
      | Inr stick \<Rightarrow>
      (case append_answer_to_stats_log E old_state answer exploration_id old_state_name
              old_params handler rl of
        Inl e \<Rightarrow> (hit, Inl e)
      | Inr submitted \<Rightarrow>
      (let events = hit @ [submitted] in
      (case service (get_widget_by_id E (INTERACTIVE_PREFIX E)
                       (widget_id (widget old_state))) of
        Inl e \<Rightarrow> (events, Inl e)
      | Inr old_widget \<Rightarrow>
      (let response = get_reader_response_html old_widget
                        (customization_args (widget old_state)) old_params answer;
           html_output = get_feedback E exploration_id feedback old_params;
           finished = (new_state_name = END_DEST E);
           state_has_changed = (old_state_name \<noteq> new_state_name) in
      (case append_content E exploration_id stick finished old_params new_state
              new_state_name state_has_changed html_output of
        Inl e \<Rightarrow> (events, Inl e)
      | Inr (new_params, html_output', interactive_html) \<Rightarrow>
          (events,
           Inr \<lparr>fv_reader_response_html = fst response,
                fv_reader_response_iframe = snd response,
                fv_interactive_html = interactive_html,
                fv_exploration_id = exploration_id,
                fv_state_name = new_state_name,
                fv_oppia_html = html_output',
                fv_block_number = block_number,
                fv_params = new_params,
                fv_finished = finished,
                fv_state_history = state_history'\<rparr>))))))))))))))))))))"

section \<open>RandomExplorationPage\<close>

text \<open>
  Modelled from the spec: \<open>utils.get_random_choice\<close> is not among the sources; the spec
  says that it picks a uniformly random element of the list. The randomness is an
  explicit input, the index drawn, which is uniform on \<open>0 ..< len(alist)\<close>; an index
  outside the list raises as \<open>alist[index]\<close> does.
\<close>

definition get_random_choice :: "'a list \<Rightarrow> nat \<Rightarrow> error + 'a" where
  "get_random_choice alist index =
     (if index < length alist then Inr (alist ! index) else Inl IndexError)"

text \<open>
  \<open>RandomExplorationPage.get\<close>: the events recorded and the URL of the redirect.
  \<open>explorations[1:]\<close> is \<open>drop 1 explorations\<close>.
\<close>

definition RandomExplorationPage_get ::
    "env \<Rightarrow> string \<Rightarrow> nat \<Rightarrow> event list \<times> (error + string)" where
  "RandomExplorationPage_get E iframed_arg index =
     (let iframed = (iframed_arg = ''true'');
          explorations = get_public_explorations E;
          selected =
            (if length explorations \<le> 1
             then ([DeleteDemo ''1'', LoadDemo ''1''], Inr ''1'')
             else ([], map_sum id id_exp
                         (get_random_choice (drop 1 explorations) index)))
      in
      (case snd selected of
         Inl e \<Rightarrow> (fst selected, Inl e)
       | Inr selected_exploration_id \<Rightarrow>
           let dest_url = ''/learn/'' @ selected_exploration_id
           in (fst selected,
               Inr (if iframed then dest_url @ ''?iframed=true'' else dest_url))))"

section \<open>The prerequisites handler\<close>





section \<open>A small installation, for concrete runs\<close>

text \<open>
  One exploration \<open>''0''\<close> with three states and an unpublished exploration \<open>''eid''\<close>
  that only its editor may view. \<open>First\<close> and \<open>Second\<close> share a sticky widget,
  \<open>Third\<close> has another one. The classifier reads the answer only.
\<close>

definition demo_widget :: "string \<Rightarrow> widget_class" where
  "demo_widget wid =
     \<lparr>get_raw_code = (\<lambda>args ps. ''<'' @ wid @ ''>''),
      get_stats_log_html = (\<lambda>args ps answer. ''logged''),
      get_reader_response_html = (\<lambda>args ps answer. (''You answered'', []))\<rparr>"

definition demo_first :: state where
  "demo_first =
     \<lparr>content = [Content ''text'' ''Hello''],
      widget = \<lparr>widget_id = ''TextInput'', customization_args = [], sticky = True\<rparr>\<rparr>"

definition demo_second :: state where
  "demo_second =
     \<lparr>content = [Content ''text'' ''More''],
      widget = \<lparr>widget_id = ''TextInput'', customization_args = [], sticky = True\<rparr>\<rparr>"

definition demo_third :: state where
  "demo_third =
     \<lparr>content = [Content ''text'' ''Last''],
      widget = \<lparr>widget_id = ''Continue'', customization_args = [], sticky = False\<rparr>\<rparr>"

definition demo_states :: "(string \<times> state) list" where
  "demo_states =
     [(''First'', demo_first), (''Second'', demo_second), (''Third'', demo_third)]"

definition demo_exploration :: "string \<Rightarrow> exploration" where
  "demo_exploration i =
     \<lparr>id_exp = i, title = ''A title'', default_skin = ''conversation'',
      init_state_name = ''First'', states = demo_states\<rparr>"

definition demo_classify ::
    "string \<Rightarrow> string \<Rightarrow> json \<Rightarrow> json \<Rightarrow> dict \<Rightarrow> string + rule" where
  "demo_classify i old_state_name handler answer ps =
     (if answer = JStr ''again''
      then Inr \<lparr>dest = old_state_name, get_feedback_string = ''Try again'',
                rule_str = ''Default''\<rparr>
      else if answer = JStr ''second''
      then Inr \<lparr>dest = ''Second'', get_feedback_string = ''Good'',
                rule_str = ''Equals''\<rparr>
      else if answer = JStr ''third''
      then Inr \<lparr>dest = ''Third'', get_feedback_string = ''Fine'',
                rule_str = ''Equals''\<rparr>
      else if answer = JStr ''quiet''
      then Inr \<lparr>dest = ''Third'', get_feedback_string = [],
                rule_str = ''Equals''\<rparr>
      else Inr \<lparr>dest = ''END'', get_feedback_string = ''Bye'',
                rule_str = ''Default''\<rparr>)"

fun content_value :: "Content \<Rightarrow> string" where
  "content_value (Content t v) = v"

definition demo_env :: env where
  "demo_env =
     \<lparr>END_DEST = ''END'',
      INTERACTIVE_PREFIX = ''interactive'',
      unescape_state_name = (\<lambda>s. s),
      get_exploration_by_id =
        (\<lambda>i. if i = ''0'' then Inr (demo_exploration i)
              else if i = ''eid'' then Inr (demo_exploration i)
              else Inl ''Entity not found''),
      get_public_explorations =
        [demo_exploration ''0'', demo_exploration ''5'', demo_exploration ''7''],
      get_init_params = (\<lambda>i. []),
      update_with_state_params = (\<lambda>i state_name ps. ps),
      export_content_to_html = (\<lambda>i cs ps. concat (map content_value cs)),
      classify = demo_classify,
      get_widget_by_id = (\<lambda>prefix wid. Inr (demo_widget wid)),
      can_view = (\<lambda>user i. if i = ''eid'' then user = Some ''editor'' else True),
      is_exploration_public = (\<lambda>i. if i = ''eid'' then False else True),
      get_skin_html = (\<lambda>skin. ''<skin>'')\<rparr>"

definition demo_payload :: "string \<Rightarrow> json list \<Rightarrow> dict" where
  "demo_payload answer history =
     [(''answer'', JStr answer), (''block_number'', JInt 3), (''handler'', JStr ''submit''),
      (''params'', JDict []), (''state_history'', JList history)]"

section \<open>What a successful answer submission went through\<close>

lemmas demo_defs = demo_env_def demo_payload_def demo_classify_def demo_exploration_def
  demo_states_def demo_first_def demo_second_def demo_third_def demo_widget_def

lemmas handler_defs = post_def Let_def service_def dict_get_def dict_index_def
  sticky_flag_def append_answer_to_stats_log_def append_content_def get_feedback_def
  attr_def

lemma service_Inr: "service x = Inr y \<longleftrightarrow> x = Inr y"
  by (cases x) (auto simp: service_def)

lemma dict_index_Inr: "dict_index d k = Inr v \<longleftrightarrow> map_of d k = Some v"
  by (auto simp: dict_index_def split: option.splits)

lemma lookup_state_Inr:
  "map_sum id Some (dict_index d k) = Inr x \<longleftrightarrow> (\<exists>v. map_of d k = Some v \<and> x = Some v)"
  by (auto simp: dict_index_def split: option.splits)

lemma py_append_Inr:
  "py_append x name = Inr ys \<longleftrightarrow> (\<exists>xs. x = JList xs \<and> ys = xs @ [JStr name])"
  by (cases x) auto

text \<open>
  When \<open>post\<close> renders its JSON, every lookup on the way succeeded, the history sent
  was a list, and the fields of the JSON are the values computed on the way.
\<close>

lemma post_Inr_cases:
  assumes "post E exploration_id escaped_state_name payload = (evs, Inr r)"
  shows "\<exists>exploration old_state old_params rl new_state h stick submitted old_widget np ho ih.
     get_exploration_by_id E exploration_id = Inr exploration \<and>
     map_of (states exploration) (unescape_state_name E escaped_state_name) = Some old_state \<and>
     py_add_one (dict_get payload ''block_number'' JNull) = Inr (fv_block_number r) \<and>
     py_set_answer (dict_get payload ''params'' (JDict []))
       (dict_get payload ''answer'' JNull) = Inr old_params \<and>
     map_of payload ''state_history'' = Some (JList h) \<and>
     classify E exploration_id (unescape_state_name E escaped_state_name)
       (dict_get payload ''handler'' JNull) (dict_get payload ''answer'' JNull)
       old_params = Inr rl \<and>
     new_state = (if dest rl = END_DEST E then None
                  else map_of (states exploration) (dest rl)) \<and>
     (dest rl = END_DEST E \<or> new_state \<noteq> None) \<and>
     sticky_flag E (dest rl) new_state old_state = Inr stick \<and>
     append_answer_to_stats_log E old_state (dict_get payload ''answer'' JNull)
       exploration_id (unescape_state_name E escaped_state_name) old_params
       (dict_get payload ''handler'' JNull) rl = Inr submitted \<and>
     get_widget_by_id E (INTERACTIVE_PREFIX E) (widget_id (widget old_state)) =
       Inr old_widget \<and>
     append_content E exploration_id stick (dest rl = END_DEST E) old_params new_state
       (dest rl) (unescape_state_name E escaped_state_name \<noteq> dest rl)
       (get_feedback E exploration_id (get_feedback_string rl) old_params) =
       Inr (np, ho, ih) \<and>
     evs = [StateHit exploration_id (dest rl) (JStr (dest rl) \<notin> set h), submitted] \<and>
     fv_interactive_html r = ih \<and> fv_oppia_html r = ho \<and> fv_params r = np \<and>
     fv_finished r = (dest rl = END_DEST E) \<and> fv_state_name r = dest rl \<and>
     fv_exploration_id r = exploration_id \<and>
     fv_state_history r = h @ [JStr (dest rl)]"
  using assms unfolding post_def Let_def
  by (auto split: sum.splits prod.splits if_splits
           simp: py_append_Inr service_Inr dict_index_Inr lookup_state_Inr)

text \<open>
  The other direction: when the lookups succeed, the payload is well-formed and the
  content is assembled, \<open>post\<close> renders its JSON.
\<close>

lemma post_returns:
  assumes "get_exploration_by_id E exploration_id = Inr exploration"
    and "map_of (states exploration) (unescape_state_name E escaped_state_name) =
           Some old_state"
    and "py_add_one (dict_get payload ''block_number'' JNull) = Inr n'"
    and "py_set_answer (dict_get payload ''params'' (JDict []))
           (dict_get payload ''answer'' JNull) = Inr old_params"
    and "map_of payload ''state_history'' = Some (JList h)"
    and "classify E exploration_id (unescape_state_name E escaped_state_name)
           (dict_get payload ''handler'' JNull) (dict_get payload ''answer'' JNull)
           old_params = Inr rl"
    and "get_widget_by_id E (INTERACTIVE_PREFIX E) (widget_id (widget old_state)) =
           Inr old_widget"
    and "dest rl \<noteq> END_DEST E \<Longrightarrow>
           \<exists>ns w. map_of (states exploration) (dest rl) = Some ns \<and>
             get_widget_by_id E (INTERACTIVE_PREFIX E) (widget_id (widget ns)) = Inr w"
  shows "\<exists>evs r. post E exploration_id escaped_state_name payload = (evs, Inr r)"
proof (cases "dest rl = END_DEST E")
  case True
  with assms(1-7) show ?thesis
    unfolding post_def Let_def
    by (simp add: service_def dict_index_def append_answer_to_stats_log_def
          sticky_flag_def append_content_def)
next
  case False
  with assms(8) obtain ns w where
    "map_of (states exploration) (dest rl) = Some ns"
    "get_widget_by_id E (INTERACTIVE_PREFIX E) (widget_id (widget ns)) = Inr w"
    by blast
  with False assms(1-7) show ?thesis
    unfolding post_def Let_def
    by (simp add: service_def dict_index_def append_answer_to_stats_log_def
          sticky_flag_def append_content_def attr_def Let_def)
qed

text \<open>The finished branch of \<open>_append_content\<close> returns at once.\<close>

lemma append_content_finished:
  "append_content E exploration_id stick True old_params new_state new_state_name
     state_has_changed html_output = Inr ([], html_output, [])"
  by (simp add: append_content_def)

lemma append_content_sticky:
  assumes "append_content E exploration_id True finished old_params new_state
             new_state_name state_has_changed html_output = Inr (np, ho, ih)"
  shows "ih = []"
  using assms
  by (auto simp: append_content_def Let_def split: if_splits sum.splits)

lemma append_content_html:
  assumes "append_content E exploration_id stick False old_params (Some ns)
             new_state_name state_has_changed html_output = Inr (np, ho, ih)"
  shows "np = update_with_state_params E exploration_id new_state_name old_params \<and>
         ho = (if state_has_changed
               then html_output
                    @ (if html_output \<noteq> [] \<and>
                          export_content_to_html E exploration_id (content ns) np \<noteq> []
                       then ''<br>'' else [])
                    @ export_content_to_html E exploration_id (content ns) np
               else html_output)"
  using assms
  by (auto simp: append_content_def Let_def attr_def split: if_splits sum.splits)

subsection \<open>Concrete runs\<close>

lemma run_second:
  "post demo_env ''0'' ''First'' (demo_payload ''second'' [JStr ''First'']) =
     ([StateHit ''0'' ''Second'' True,
       AnswerSubmitted ''0'' ''First'' (JStr ''submit'') ''Equals'' ''logged''],
      Inr \<lparr>fv_reader_response_html = ''You answered'', fv_reader_response_iframe = [],
           fv_interactive_html = [], fv_exploration_id = ''0'',
           fv_state_name = ''Second'', fv_oppia_html = ''Good<br>More'',
           fv_block_number = 4, fv_params = [(''answer'', JStr ''second'')],
           fv_finished = False,
           fv_state_history = [JStr ''First'', JStr ''Second'']\<rparr>)"
  by (simp add: handler_defs demo_defs)

lemma run_third:
  "post demo_env ''0'' ''First'' (demo_payload ''third'' [JStr ''First'']) =
     ([StateHit ''0'' ''Third'' True,
       AnswerSubmitted ''0'' ''First'' (JStr ''submit'') ''Equals'' ''logged''],
      Inr \<lparr>fv_reader_response_html = ''You answered'', fv_reader_response_iframe = [],
           fv_interactive_html = ''<Continue>'', fv_exploration_id = ''0'',
           fv_state_name = ''Third'', fv_oppia_html = ''Fine<br>Last'',
           fv_block_number = 4, fv_params = [(''answer'', JStr ''third'')],
           fv_finished = False,
           fv_state_history = [JStr ''First'', JStr ''Third'']\<rparr>)"
  by (simp add: handler_defs demo_defs)

lemma run_again:
  "post demo_env ''0'' ''First'' (demo_payload ''again'' [JStr ''First'']) =
     ([StateHit ''0'' ''First'' False,
       AnswerSubmitted ''0'' ''First'' (JStr ''submit'') ''Default'' ''logged''],
      Inr \<lparr>fv_reader_response_html = ''You answered'', fv_reader_response_iframe = [],
           fv_interactive_html = [], fv_exploration_id = ''0'',
           fv_state_name = ''First'', fv_oppia_html = ''Try again'',
           fv_block_number = 4, fv_params = [(''answer'', JStr ''again'')],
           fv_finished = False,
           fv_state_history = [JStr ''First'', JStr ''First'']\<rparr>)"
  by (simp add: handler_defs demo_defs)


lemma run_end:
  "post demo_env ''0'' ''First'' (demo_payload ''bye'' [JStr ''First'']) =
     ([StateHit ''0'' ''END'' True,
       AnswerSubmitted ''0'' ''First'' (JStr ''submit'') ''Default'' ''logged''],
      Inr \<lparr>fv_reader_response_html = ''You answered'', fv_reader_response_iframe = [],
           fv_interactive_html = [], fv_exploration_id = ''0'',
           fv_state_name = ''END'', fv_oppia_html = ''Bye'',
           fv_block_number = 4, fv_params = [],
           fv_finished = True,
           fv_state_history = [JStr ''First'', JStr ''END'']\<rparr>)"
  by (simp add: handler_defs demo_defs)

lemma demo_old_params:
  "py_set_answer (dict_get (demo_payload a h) ''params'' (JDict []))
     (dict_get (demo_payload a h) ''answer'' JNull) = Inr [(''answer'', JStr a)]"
  by (simp add: demo_payload_def dict_get_def)

lemma demo_handler: "dict_get (demo_payload a h) ''handler'' JNull = JStr ''submit''"
  by (simp add: demo_payload_def dict_get_def)

lemma demo_answer: "dict_get (demo_payload a h) ''answer'' JNull = JStr a"
  by (simp add: demo_payload_def dict_get_def)

lemma demo_history: "map_of (demo_payload a h) ''state_history'' = Some (JList h)"
  by (simp add: demo_payload_def)


lemma demo_lookup: "get_exploration_by_id demo_env ''0'' = Inr (demo_exploration ''0'')"
  by (simp add: demo_env_def)

lemma demo_origin:
  "map_of (states (demo_exploration ''0'')) (unescape_state_name demo_env ''First'')
     = Some demo_first"
  by (simp add: demo_env_def demo_exploration_def demo_states_def)

lemma demo_classified:
  "classify demo_env ''0'' (unescape_state_name demo_env ''First'')
     (dict_get (demo_payload a h) ''handler'' JNull)
     (dict_get (demo_payload a h) ''answer'' JNull) [(''answer'', JStr a)]
   = demo_classify ''0'' ''First'' (JStr ''submit'') (JStr a) [(''answer'', JStr a)]"
  by (simp add: demo_env_def demo_answer demo_handler)

lemma demo_END: "END_DEST demo_env = ''END''"
  by (simp add: demo_env_def)

lemma demo_classified_again:
  "classify demo_env ''0'' (unescape_state_name demo_env ''First'')
     (dict_get (demo_payload ''again'' h) ''handler'' JNull)
     (dict_get (demo_payload ''again'' h) ''answer'' JNull) [(''answer'', JStr ''again'')]
   = Inr \<lparr>dest = ''First'', get_feedback_string = ''Try again'', rule_str = ''Default''\<rparr>"
  by (simp add: demo_classified demo_classify_def)

lemma demo_classified_second:
  "classify demo_env ''0'' (unescape_state_name demo_env ''First'')
     (dict_get (demo_payload ''second'' h) ''handler'' JNull)
     (dict_get (demo_payload ''second'' h) ''answer'' JNull) [(''answer'', JStr ''second'')]
   = Inr \<lparr>dest = ''Second'', get_feedback_string = ''Good'', rule_str = ''Equals''\<rparr>"
  by (simp add: demo_classified demo_classify_def)

lemma demo_classified_third:
  "classify demo_env ''0'' (unescape_state_name demo_env ''First'')
     (dict_get (demo_payload ''third'' h) ''handler'' JNull)
     (dict_get (demo_payload ''third'' h) ''answer'' JNull) [(''answer'', JStr ''third'')]
   = Inr \<lparr>dest = ''Third'', get_feedback_string = ''Fine'', rule_str = ''Equals''\<rparr>"
  by (simp add: demo_classified demo_classify_def)

lemma demo_classified_bye:
  "classify demo_env ''0'' (unescape_state_name demo_env ''First'')
     (dict_get (demo_payload ''bye'' h) ''handler'' JNull)
     (dict_get (demo_payload ''bye'' h) ''answer'' JNull) [(''answer'', JStr ''bye'')]
   = Inr \<lparr>dest = ''END'', get_feedback_string = ''Bye'', rule_str = ''Default''\<rparr>"
  by (simp add: demo_classified demo_classify_def)

section \<open>Answer submission: the claims\<close>



text \<open>
  C2. For every answer submission with client-sent state history \<open>h\<close> and classified
  destination state name \<open>d = dest rl\<close>, the \<open>state_history\<close> field of the returned
  JSON is \<open>h\<close> with \<open>d\<close> appended as its new last element: the order of \<open>h\<close> is kept
  and nothing is removed, also when \<open>d\<close> occurs in \<open>h\<close> already (the number of
  occurrences of \<open>d\<close> grows by one).
\<close>

theorem state_history_appended:
  assumes "post E exploration_id escaped_state_name payload = (evs, Inr r)"
    and "py_set_answer (dict_get payload ''params'' (JDict []))
           (dict_get payload ''answer'' JNull) = Inr old_params"
    and "classify E exploration_id (unescape_state_name E escaped_state_name)
           (dict_get payload ''handler'' JNull) (dict_get payload ''answer'' JNull)
           old_params = Inr rl"
    and "map_of payload ''state_history'' = Some (JList h)"
  shows "fv_state_history r = h @ [JStr (dest rl)] \<and>
         count_list (fv_state_history r) (JStr (dest rl))
           = count_list h (JStr (dest rl)) + 1"
proof -
  from post_Inr_cases [OF assms(1)] assms(2-4)
  have "fv_state_history r = h @ [JStr (dest rl)]"
    by auto
  then show ?thesis
    by simp
qed

theorem state_history_appended_witness:
  "\<exists>evs r. post demo_env ''0'' ''First'' (demo_payload ''again'' [JStr ''First''])
             = (evs, Inr r) \<and>
           fv_state_history r = [JStr ''First'', JStr ''First''] \<and>
           count_list (fv_state_history r) (JStr ''First'') = 2"
  using state_history_appended [OF run_again demo_old_params demo_classified_again
      demo_history] run_again
  by simp

text \<open>
  C3. For every answer submission, the sticky flag is true if and only if the
  destination is not the end sentinel and the destination state's widget is flagged
  sticky and its widget id equals the origin state's widget id; and whenever the flag
  is true, the \<open>interactive_html\<close> of the returned JSON is the empty string.
\<close>

theorem sticky_iff:
  assumes "post E exploration_id escaped_state_name payload = (evs, Inr r)"
    and "get_exploration_by_id E exploration_id = Inr exploration"
    and "map_of (states exploration) (unescape_state_name E escaped_state_name)
           = Some old_state"
    and "py_set_answer (dict_get payload ''params'' (JDict []))
           (dict_get payload ''answer'' JNull) = Inr old_params"
    and "classify E exploration_id (unescape_state_name E escaped_state_name)
           (dict_get payload ''handler'' JNull) (dict_get payload ''answer'' JNull)
           old_params = Inr rl"
    and "new_state = (if dest rl = END_DEST E then None
                      else map_of (states exploration) (dest rl))"
  shows "\<exists>stick. sticky_flag E (dest rl) new_state old_state = Inr stick \<and>
           (stick \<longleftrightarrow>
              dest rl \<noteq> END_DEST E \<and>
              (case map_of (states exploration) (dest rl) of
                 None \<Rightarrow> False
               | Some ns \<Rightarrow>
                   sticky (widget ns) \<and>
                   widget_id (widget ns) = widget_id (widget old_state))) \<and>
           (stick \<longrightarrow> fv_interactive_html r = [])"
proof -
  from post_Inr_cases [OF assms(1)] assms(2-6)
  obtain stick np ho ih where
    flag: "sticky_flag E (dest rl) new_state old_state = Inr stick" and
    cont: "append_content E exploration_id stick (dest rl = END_DEST E) old_params
             new_state (dest rl) (unescape_state_name E escaped_state_name \<noteq> dest rl)
             (get_feedback E exploration_id (get_feedback_string rl) old_params)
           = Inr (np, ho, ih)" and
    ih: "fv_interactive_html r = ih"
    by auto
  from flag assms(6)
  have "stick \<longleftrightarrow>
          dest rl \<noteq> END_DEST E \<and>
          (case map_of (states exploration) (dest rl) of
             None \<Rightarrow> False
           | Some ns \<Rightarrow>
               sticky (widget ns) \<and> widget_id (widget ns) = widget_id (widget old_state))"
    by (auto simp: sticky_flag_def attr_def split: if_splits option.splits)
  moreover have "fv_interactive_html r = []" if stick
  proof -
    from that cont have "append_content E exploration_id True (dest rl = END_DEST E)
        old_params new_state (dest rl) (unescape_state_name E escaped_state_name \<noteq> dest rl)
        (get_feedback E exploration_id (get_feedback_string rl) old_params)
      = Inr (np, ho, ih)"
      by simp
    then have "ih = []"
      by (rule append_content_sticky)
    with ih show ?thesis
      by simp
  qed
  ultimately show ?thesis
    using flag by blast
qed

theorem sticky_iff_witness:
  "\<exists>evs r. post demo_env ''0'' ''First'' (demo_payload ''second'' [JStr ''First''])
             = (evs, Inr r) \<and>
           sticky_flag demo_env ''Second'' (Some demo_second) demo_first = Inr True \<and>
           fv_interactive_html r = []"
  using sticky_iff [OF run_second demo_lookup demo_origin demo_old_params
      demo_classified_second refl] run_second
  by (auto simp add: demo_END demo_exploration_def demo_states_def demo_first_def
        demo_second_def)

text \<open>
  C4. For every answer submission whose classified rule's destination is the end
  sentinel, the returned JSON has \<open>finished\<close> true, \<open>interactive_html\<close> empty,
  \<open>oppia_html\<close> equal to the rendered feedback HTML and nothing else, and \<open>params\<close>
  equal to the empty mapping.
\<close>

theorem finished_response:
  assumes "post E exploration_id escaped_state_name payload = (evs, Inr r)"
    and "py_set_answer (dict_get payload ''params'' (JDict []))
           (dict_get payload ''answer'' JNull) = Inr old_params"
    and "classify E exploration_id (unescape_state_name E escaped_state_name)
           (dict_get payload ''handler'' JNull) (dict_get payload ''answer'' JNull)
           old_params = Inr rl"
    and "dest rl = END_DEST E"
  shows "fv_finished r \<and> fv_interactive_html r = [] \<and>
         fv_oppia_html r = get_feedback E exploration_id (get_feedback_string rl)
                             old_params \<and>
         fv_params r = []"
  using post_Inr_cases [OF assms(1)] assms(2-4)
  by (auto simp: append_content_finished)

theorem finished_response_witness:
  "\<exists>evs r. post demo_env ''0'' ''First'' (demo_payload ''bye'' [JStr ''First''])
             = (evs, Inr r) \<and>
           fv_finished r \<and> fv_interactive_html r = [] \<and> fv_oppia_html r = ''Bye'' \<and>
           fv_params r = []"
  using finished_response [OF run_end demo_old_params demo_classified_bye] run_end
  by simp

lemma py_append_Inl: "py_append x name = Inl e \<Longrightarrow> e = AttributeError ''append''"
  by (cases x) auto

lemma py_add_one_Inl: "py_add_one x = Inl e \<Longrightarrow> e = TypeError"
  by (cases x) auto

lemma py_set_answer_Inl: "py_set_answer x a = Inl e \<Longrightarrow> e = TypeError"
  by (cases x) auto

lemma py_not_in_Inl: "py_not_in name x = Inl e \<Longrightarrow> e = TypeError"
  by (cases x) auto

lemma run_quiet:
  "post demo_env ''0'' ''First'' (demo_payload ''quiet'' [JStr ''First'']) =
     ([StateHit ''0'' ''Third'' True,
       AnswerSubmitted ''0'' ''First'' (JStr ''submit'') ''Equals'' ''logged''],
      Inr \<lparr>fv_reader_response_html = ''You answered'', fv_reader_response_iframe = [],
           fv_interactive_html = ''<Continue>'', fv_exploration_id = ''0'',
           fv_state_name = ''Third'', fv_oppia_html = ''Last'',
           fv_block_number = 4, fv_params = [(''answer'', JStr ''quiet'')],
           fv_finished = False,
           fv_state_history = [JStr ''First'', JStr ''Third'']\<rparr>)"
  by (simp add: handler_defs demo_defs)

lemma demo_classified_quiet:
  "classify demo_env ''0'' (unescape_state_name demo_env ''First'')
     (dict_get (demo_payload ''quiet'' h) ''handler'' JNull)
     (dict_get (demo_payload ''quiet'' h) ''answer'' JNull) [(''answer'', JStr ''quiet'')]
   = Inr \<lparr>dest = ''Third'', get_feedback_string = [], rule_str = ''Equals''\<rparr>"
  by (simp add: demo_classified demo_classify_def)

text \<open>
  C5. For every answer submission whose destination is not the end sentinel, the
  returned \<open>oppia_html\<close> holds the destination state's rendered content (after the
  feedback HTML) if and only if the destination state name differs from the origin
  state name; \<open><br>\<close> stands between the two exactly when both are non-empty; on a
  self-transition \<open>oppia_html\<close> is the feedback HTML alone. The content is rendered
  with the new parameters.
\<close>

theorem oppia_html_assembled:
  assumes "post E exploration_id escaped_state_name payload = (evs, Inr r)"
    and "get_exploration_by_id E exploration_id = Inr exploration"
    and "py_set_answer (dict_get payload ''params'' (JDict []))
           (dict_get payload ''answer'' JNull) = Inr old_params"
    and "classify E exploration_id (unescape_state_name E escaped_state_name)
           (dict_get payload ''handler'' JNull) (dict_get payload ''answer'' JNull)
           old_params = Inr rl"
    and "dest rl \<noteq> END_DEST E"
    and "feedback_html = get_feedback E exploration_id (get_feedback_string rl)
                           old_params"
  shows "\<exists>ns. map_of (states exploration) (dest rl) = Some ns \<and>
           fv_oppia_html r =
             (let state_html = export_content_to_html E exploration_id (content ns)
                    (update_with_state_params E exploration_id (dest rl) old_params)
              in if unescape_state_name E escaped_state_name \<noteq> dest rl
                 then feedback_html
                      @ (if feedback_html \<noteq> [] \<and> state_html \<noteq> [] then ''<br>'' else [])
                      @ state_html
                 else feedback_html)"
proof -
  from post_Inr_cases [OF assms(1)] assms(2-6)
  obtain new_state stick np ho ih where
    ns: "new_state = map_of (states exploration) (dest rl)" "new_state \<noteq> None" and
    cont: "append_content E exploration_id stick False old_params new_state (dest rl)
             (unescape_state_name E escaped_state_name \<noteq> dest rl) feedback_html
           = Inr (np, ho, ih)" and
    ho: "fv_oppia_html r = ho"
    by auto
  from ns obtain s where s: "map_of (states exploration) (dest rl) = Some s"
    by auto
  with ns cont
  have "append_content E exploration_id stick False old_params (Some s) (dest rl)
          (unescape_state_name E escaped_state_name \<noteq> dest rl) feedback_html
        = Inr (np, ho, ih)"
    by simp
  from append_content_html [OF this] ho s show ?thesis
    by (simp add: Let_def)
qed

theorem oppia_html_assembled_witness:
  "(\<exists>evs r. post demo_env ''0'' ''First'' (demo_payload ''third'' [JStr ''First''])
              = (evs, Inr r) \<and> fv_oppia_html r = ''Fine<br>Last'') \<and>
   (\<exists>evs r. post demo_env ''0'' ''First'' (demo_payload ''quiet'' [JStr ''First''])
              = (evs, Inr r) \<and> fv_oppia_html r = ''Last'') \<and>
   (\<exists>evs r. post demo_env ''0'' ''First'' (demo_payload ''again'' [JStr ''First''])
              = (evs, Inr r) \<and> fv_oppia_html r = ''Try again'')"
  using
    oppia_html_assembled [OF run_third demo_lookup demo_old_params demo_classified_third
      _ refl]
    oppia_html_assembled [OF run_quiet demo_lookup demo_old_params demo_classified_quiet
      _ refl]
    oppia_html_assembled [OF run_again demo_lookup demo_old_params demo_classified_again
      _ refl]
    run_third run_quiet run_again
  by (simp add: demo_END)




text \<open>
  C10. For every answer submission whose classified destination is the end sentinel,
  the handler never reads an attribute of the destination state, which is \<open>None\<close>:
  the sticky conjunction stops at the end-sentinel test, the finished branch of
  \<open>_append_content\<close> returns before it touches the state, and so whatever the outcome
  of \<open>post\<close> is, it is not the \<open>AttributeError\<close> of \<open>None.widget\<close> or of
  \<open>None.content\<close>.
\<close>

theorem end_state_not_dereferenced:
  assumes "post E exploration_id escaped_state_name payload = (evs, out)"
    and "py_set_answer (dict_get payload ''params'' (JDict []))
           (dict_get payload ''answer'' JNull) = Inr old_params"
    and "classify E exploration_id (unescape_state_name E escaped_state_name)
           (dict_get payload ''handler'' JNull) (dict_get payload ''answer'' JNull)
           old_params = Inr rl"
    and "dest rl = END_DEST E"
  shows "sticky_flag E (dest rl) None old_state = Inr False \<and>
         append_content E exploration_id stick True old_params None (dest rl)
           state_has_changed html_output = Inr ([], html_output, []) \<and>
         out \<noteq> Inl (AttributeError ''widget'') \<and>
         out \<noteq> Inl (AttributeError ''content'')"
proof -
  have "sticky_flag E (dest rl) None old_state = Inr False"
    using assms(4) by (simp add: sticky_flag_def)
  moreover
  have "out \<noteq> Inl (AttributeError ''widget'') \<and> out \<noteq> Inl (AttributeError ''content'')"
    using assms unfolding post_def Let_def
    by (auto simp: service_def dict_index_def sticky_flag_def append_content_finished
          append_answer_to_stats_log_def
          dest: py_append_Inl py_add_one_Inl py_not_in_Inl
          split: sum.splits option.splits if_splits prod.splits)
  ultimately show ?thesis
    by (simp add: append_content_finished)
qed

theorem end_state_not_dereferenced_witness:
  "sticky_flag demo_env ''END'' None demo_first = Inr False \<and>
   (\<exists>evs r. post demo_env ''0'' ''First'' (demo_payload ''bye'' [JStr ''First''])
              = (evs, Inr r) \<and> fv_finished r)"
  using end_state_not_dereferenced [OF run_end demo_old_params demo_classified_bye,
      of demo_first] run_end
  by (simp add: demo_END)

section \<open>The exploration page and the init handler\<close>

text \<open>
  \<open>ExplorationPage.get\<close> fails with \<open>PageNotFoundException\<close> when the id does not
  resolve and when the acting identity may not view the exploration, and renders
  otherwise.
\<close>

lemma ExplorationPage_get_unresolved:
  "get_exploration_by_id E exploration_id = Inl msg \<Longrightarrow>
   ExplorationPage_get E user_id exploration_id iframed_arg = Inl PageNotFoundException"
  by (simp add: ExplorationPage_get_def)

lemma ExplorationPage_get_not_viewable:
  "\<not> can_view E user_id exploration_id \<Longrightarrow>
   ExplorationPage_get E user_id exploration_id iframed_arg = Inl PageNotFoundException"
  by (simp add: ExplorationPage_get_def split: sum.splits)

lemma ExplorationPage_get_renders:
  "get_exploration_by_id E exploration_id = Inr exploration \<Longrightarrow>
   can_view E user_id exploration_id \<Longrightarrow>
   \<exists>v. ExplorationPage_get E user_id exploration_id iframed_arg = Inr v"
  by (simp add: ExplorationPage_get_def)

text \<open>
  \<open>ExplorationHandler.get\<close> fails with \<open>PageNotFoundException\<close> when the id does not
  resolve. It never asks \<open>rights_manager\<close>: its result is the same whatever
  \<open>can_view\<close> answers and whoever the acting identity is.
\<close>

lemma ExplorationHandler_get_unresolved:
  "get_exploration_by_id E exploration_id = Inl msg \<Longrightarrow>
   ExplorationHandler_get E user_id exploration_id = ([], Inl PageNotFoundException)"
  by (simp add: ExplorationHandler_get_def)

lemma ExplorationHandler_get_ignores_rights:
  "ExplorationHandler_get (E\<lparr>can_view := cv\<rparr>) user_id exploration_id
   = ExplorationHandler_get E user_id' exploration_id"
  by (simp add: ExplorationHandler_get_def Let_def split: sum.splits)

text \<open>
  C1. The claim holds for \<open>ExplorationPage.get\<close> and fails for
  \<open>ExplorationHandler.get\<close>: for the unpublished exploration \<open>''eid''\<close> and a logged-out
  reader, who may not view it, the page handler fails with \<open>PageNotFoundException\<close>
  while the init handler returns the initial data of the exploration and records a
  state hit.
\<close>

theorem init_handler_serves_unviewable_exploration:
  "can_view demo_env None ''eid'' = False \<and>
   ExplorationPage_get demo_env None ''eid'' [] = Inl PageNotFoundException \<and>
   ExplorationHandler_get demo_env None ''eid'' =
     ([StateHit ''eid'' ''First'' True],
      Inr \<lparr>iv_block_number = 0,
           iv_interactive_html = ''<TextInput>'',
           iv_oppia_html = ''Hello'',
           iv_params = [],
           iv_state_history = [''First''],
           iv_state_name = ''First'',
           iv_title = ''A title''\<rparr>)"
  by (simp add: ExplorationPage_get_def ExplorationHandler_get_def Let_def service_def
        dict_index_def demo_defs)

section \<open>The random exploration redirect\<close>

text \<open>
  C9. When fewer than two public explorations exist, the handler deletes and reloads
  the demo exploration \<open>''1''\<close> and redirects to its reader page. Otherwise it
  redirects to the reader page of the exploration that the draw selects in the list
  without its element at index 0: the draw \<open>index\<close> selects the exploration at
  position \<open>index + 1\<close>, so the equally likely draws \<open>0 ..< n - 1\<close> enumerate the
  explorations at positions \<open>1 ..< n\<close>, each once, and nothing is deleted or loaded.
  With \<open>iframed=true\<close> in the request the URL carries \<open>?iframed=true\<close>.
\<close>

theorem random_exploration_redirect:
  assumes "explorations = get_public_explorations E"
    and "suffix = (if iframed_arg = ''true'' then ''?iframed=true'' else [])"
  shows "(length explorations < 2 \<longrightarrow>
            RandomExplorationPage_get E iframed_arg index =
              ([DeleteDemo ''1'', LoadDemo ''1''], Inr (''/learn/1'' @ suffix))) \<and>
         (2 \<le> length explorations \<and> index < length explorations - 1 \<longrightarrow>
            RandomExplorationPage_get E iframed_arg index =
              ([], Inr (''/learn/'' @ id_exp (explorations ! (index + 1)) @ suffix))) \<and>
         (2 \<le> length explorations \<longrightarrow>
            map (RandomExplorationPage_get E iframed_arg) [0..<length explorations - 1] =
              map (\<lambda>e. ([], Inr (''/learn/'' @ id_exp e @ suffix))) (tl explorations))"
proof -
  have few: "RandomExplorationPage_get E iframed_arg index =
               ([DeleteDemo ''1'', LoadDemo ''1''], Inr (''/learn/1'' @ suffix))"
    if "length explorations < 2"
    using that assms by (simp add: RandomExplorationPage_get_def Let_def)
  have draw: "RandomExplorationPage_get E iframed_arg i =
                ([], Inr (''/learn/'' @ id_exp (explorations ! (i + 1)) @ suffix))"
    if "2 \<le> length explorations" "i < length explorations - 1" for i
    using that assms
    by (simp add: RandomExplorationPage_get_def Let_def get_random_choice_def)
  have "map (RandomExplorationPage_get E iframed_arg) [0..<length explorations - 1] =
          map (\<lambda>e. ([], Inr (''/learn/'' @ id_exp e @ suffix))) (tl explorations)"
    if "2 \<le> length explorations"
    using that draw
    by (intro map_upt_eqI) (auto simp: nth_tl)
  with few draw show ?thesis
    by blast
qed

theorem random_exploration_redirect_witness:
  "map (RandomExplorationPage_get demo_env ''true'') [0..<2] =
     [([], Inr ''/learn/5?iframed=true''), ([], Inr ''/learn/7?iframed=true'')] \<and>
   RandomExplorationPage_get (demo_env\<lparr>get_public_explorations := [demo_exploration ''0'']\<rparr>)
     [] 0 = ([DeleteDemo ''1'', LoadDemo ''1''], Inr ''/learn/1'')"
  using
    random_exploration_redirect [of _ demo_env _ "''true''" 0, OF refl refl]
    random_exploration_redirect
      [of _ "demo_env\<lparr>get_public_explorations := [demo_exploration ''0'']\<rparr>" _ "[]" 0,
       OF refl refl]
  by (simp add: demo_env_def demo_exploration_def numeral_2_eq_2)

section \<open>The prerequisites handler: the claim\<close>



end
